theory Spec2Isabelle
  imports Main
begin

section \<open>JavaScript values\<close>

text \<open>
  The values that flow through \<^verbatim>\<open>base.js\<close>: option values of the configuration, the
  \<^verbatim>\<open>deferred\<close> flag of an account and the \<^verbatim>\<open>httpStatusCode\<close> of a thrown error.
  Numbers are the integer-valued ones (status codes, ids); an object is a reference into
  the heap, so that two references to one object see each other's writes.
\<close>

datatype jsval = JUndefined | JNull | JBool bool | JNum int | JStr string | JRef nat

text \<open>Truthiness, as \<^verbatim>\<open>if (v)\<close>, \<^verbatim>\<open>!v\<close> and \<^verbatim>\<open>v || d\<close> test it.\<close>

fun truthy :: "jsval \<Rightarrow> bool" where
  "truthy JUndefined = False"
| "truthy JNull = False"
| "truthy (JBool b) = b"
| "truthy (JNum n) = (n \<noteq> 0)"
| "truthy (JStr s) = (s \<noteq> [])"
| "truthy (JRef a) = True"

text \<open>\<^verbatim>\<open>a || b\<close>\<close>

definition js_or :: "jsval \<Rightarrow> jsval \<Rightarrow> jsval" where
  "js_or a b = (if truthy a then a else b)"

text \<open>Decimal digits of a number, for template literals and property keys.\<close>

function string_of_nat :: "nat \<Rightarrow> string" where
  "string_of_nat n =
     (if n < 10 then [''0123456789'' ! n]
      else string_of_nat (n div 10) @ [''0123456789'' ! (n mod 10)])"
  by pat_completeness auto
termination
  by (relation "measure id") auto

declare string_of_nat.simps [simp del]

definition string_of_int :: "int \<Rightarrow> string" where
  "string_of_int i = (if i < 0 then CHR ''-'' # string_of_nat (nat (- i)) else string_of_nat (nat i))"

text \<open>
  String conversion, as a template literal and a computed property key perform it. The
  objects of the heap are plain property bags, which print as \<^verbatim>\<open>[object Object]\<close>.
\<close>

fun to_string :: "jsval \<Rightarrow> string" where
  "to_string JUndefined = ''undefined''"
| "to_string JNull = ''null''"
| "to_string (JBool b) = (if b then ''true'' else ''false'')"
| "to_string (JNum n) = string_of_int n"
| "to_string (JStr s) = s"
| "to_string (JRef a) = ''[object Object]''"

section \<open>Constants of the imported modules\<close>

text \<open>\<^verbatim>\<open>import { INTERNAL_SERVER_ERROR, NOT_FOUND, SEE_OTHER } from 'http-codes'\<close>\<close>

definition INTERNAL_SERVER_ERROR :: int where "INTERNAL_SERVER_ERROR = 500"
definition NOT_FOUND :: int where "NOT_FOUND = 404"
definition SEE_OTHER :: int where "SEE_OTHER = 303"

section \<open>Data model\<close>

text \<open>A thrown value: an \<^verbatim>\<open>Error\<close> object with its class, message and the
  \<^verbatim>\<open>httpStatusCode\<close> property (\<open>JUndefined\<close> when the property was never set).\<close>

record js_error =
  error_class :: string
  message :: string
  httpStatusCode :: jsval

text \<open>The error the engine throws when a property is read from \<^verbatim>\<open>undefined\<close>.\<close>

definition TypeError :: "string \<Rightarrow> js_error" where
  "TypeError m = \<lparr>error_class = ''TypeError'', message = m, httpStatusCode = JUndefined\<rparr>"

text \<open>
  What a \<^verbatim>\<open>catch\<close> receives. The code of the repository throws \<^verbatim>\<open>Error\<close> objects only,
  but an override of \<^verbatim>\<open>authenticate\<close> may throw, or reject with, any value:
  \<^verbatim>\<open>undefined\<close>, \<^verbatim>\<open>null\<close>, another primitive, or an object of the heap.
\<close>

datatype thrown = ErrorObject js_error | Thrown jsval

text \<open>A step of the repository's own code, seen from the \<^verbatim>\<open>catch\<close>: what it throws is an
  \<^verbatim>\<open>Error\<close> object.\<close>

definition throwing :: "(js_error + 'a) \<times> 's \<Rightarrow> (thrown + 'a) \<times> 's" where
  "throwing r = (case r of (Inl e, s) \<Rightarrow> (Inl (ErrorObject e), s) | (Inr a, s) \<Rightarrow> (Inr a, s))"

text \<open>The account an authenticator returns: \<^verbatim>\<open>account.id\<close> (an integer, by the JSDoc of
  \<^verbatim>\<open>findIdentity\<close> and \<^verbatim>\<open>onboard\<close>) and the optional \<^verbatim>\<open>account.deferred\<close> flag.\<close>

record account =
  acc_id :: int
  deferred :: jsval

text \<open>The user payload \<^verbatim>\<open>{ authenticator: { account, name }, id?, deferred? }\<close>; a field
  that was never assigned is \<open>None\<close>.\<close>

record user =
  authenticator_account :: account
  authenticator_name :: string
  user_id :: "int option"
  user_deferred :: "bool option"

text \<open>A row of the \<^verbatim>\<open>Authentication$Account\<close> table, and an identity as the data layer
  hands it back (its id and the account rows included in the result).\<close>

record account_row =
  identityId :: int
  authenticatorAccountId :: int
  authenticatorName :: string

record identity =
  identity_id :: int
  authentication_Accounts :: "account_row list"

text \<open>Calls made to the identity store, in order.\<close>

datatype db_call = FindOne int string | Create int string

text \<open>Payloads of \<^verbatim>\<open>character.emit\<close>; the number is the \<^verbatim>\<open>datetime\<close>.\<close>

datatype payload =
    AuthenticatePayload nat user
  | OnboardPayload account nat identity

text \<open>
  A request carries the session interface \<^verbatim>\<open>req.character\<close> only when the session
  middleware has run. A response is a handle; what was sent on it is in the world.
\<close>

record request =
  req_id :: nat
  has_character :: bool

text \<open>The context object an \<^verbatim>\<open>authenticate\<close> override receives (\<^verbatim>\<open>{ req, res }\<close>) and
  returns (\<^verbatim>\<open>{ account, req, res }\<close>); a property it leaves out is \<open>None\<close>.\<close>

record auth_context =
  account :: "account option"
  req :: "request option"
  res :: "nat option"

text \<open>The context \<^verbatim>\<open>identify\<close> returns: \<^verbatim>\<open>{ req, res, user }\<close>.\<close>

record user_context =
  uc_req :: "request option"
  uc_res :: "nat option"
  uc_user :: user

text \<open>
  Everything outside the authenticator object: the heap of plain objects (a property bag
  per address; \<open>next_addr\<close> is the next address to allocate), the host's model registry
  \<^verbatim>\<open>character.database.models\<close>, the two tables of the identity store with the log of
  the calls made to it, the events emitted on \<^verbatim>\<open>character\<close>, the sessions set, the
  redirects sent, and the clock (\<open>clock w n\<close> is what the \<open>n\<close>-th \<^verbatim>\<open>new Date()\<close> reads).
\<close>

record world =
  heap :: "nat \<Rightarrow> (string \<rightharpoonup> jsval)"
  next_addr :: nat
  database_models :: "(string \<times> nat) list"
  identities :: "int list"
  accounts :: "account_row list"
  db_calls :: "db_call list"
  emitted :: "(string \<times> payload) list"
  sessions :: "(nat \<times> user) list"
  redirects :: "(nat \<times> int \<times> jsval) list"
  clock :: "nat \<Rightarrow> nat"
  dates_read :: nat

text \<open>The three classes of the repository.\<close>

datatype authenticator_class = BaseAuthenticator | POSTAuthenticator | GETAuthenticator

datatype handler = Receiver | Callback

record route =
  route_method :: string
  route_path :: string
  route_middleware :: nat
  route_handler :: handler

record deps =
  session :: nat

record authenticator =
  name :: string
  config :: nat
  deps :: deps
  models :: "string \<rightharpoonup> nat"
  router :: "route list"

section \<open>Host services\<close>

text \<open>Property read on a heap object; an absent property reads as \<^verbatim>\<open>undefined\<close>.\<close>

definition get_prop :: "world \<Rightarrow> nat \<Rightarrow> string \<Rightarrow> jsval" where
  "get_prop w a k = (case heap w a k of None \<Rightarrow> JUndefined | Some v \<Rightarrow> v)"

text \<open>\<^verbatim>\<open>new Date()\<close>\<close>

definition new_Date :: "world \<Rightarrow> nat \<times> world" where
  "new_Date w = (clock w (dates_read w), w\<lparr>dates_read := Suc (dates_read w)\<rparr>)"

text \<open>\<^verbatim>\<open>character.emit(eventName, payload)\<close>\<close>

definition emit :: "string \<Rightarrow> payload \<Rightarrow> world \<Rightarrow> world" where
  "emit ev p w = w\<lparr>emitted := emitted w @ [(ev, p)]\<rparr>"

text \<open>
  The identity store. \<^verbatim>\<open>Core$Identity.findOne\<close> with the account table included under a
  \<^verbatim>\<open>where\<close> is an inner join limited to one row: the first identity, in table order,
  that has an account row with the given external id and authenticator name. The code
  puts no uniqueness constraint on that pair, and neither does the model: several
  identities may be linked to one pair, and the lookup then returns the oldest.
\<close>

definition linked :: "account_row list \<Rightarrow> int \<Rightarrow> string \<Rightarrow> int \<Rightarrow> bool" where
  "linked rows aid n i =
     list_ex (\<lambda>r. identityId r = i \<and> authenticatorAccountId r = aid \<and> authenticatorName r = n) rows"

definition Core_Identity_findOne :: "int \<Rightarrow> string \<Rightarrow> world \<Rightarrow> identity option \<times> world" where
  "Core_Identity_findOne aid n w =
     (map_option (\<lambda>i. \<lparr>identity_id = i, authentication_Accounts = []\<rparr>)
        (find (linked (accounts w) aid n) (identities w)),
      w\<lparr>db_calls := db_calls w @ [FindOne aid n]\<rparr>)"

text \<open>
  \<^verbatim>\<open>Core$Identity.create\<close> with a nested account: one identity row under the next
  auto-increment id (one more than the largest id in the table, 1 in an empty table) and
  one account row pointing at it.
\<close>

definition next_identity_id :: "int list \<Rightarrow> int" where
  "next_identity_id ids = fold max ids 0 + 1"

definition Core_Identity_create :: "int \<Rightarrow> string \<Rightarrow> world \<Rightarrow> identity \<times> world" where
  "Core_Identity_create aid n w =
     (let i = next_identity_id (identities w);
          row = \<lparr>identityId = i, authenticatorAccountId = aid, authenticatorName = n\<rparr>
      in (\<lparr>identity_id = i, authentication_Accounts = [row]\<rparr>,
          w\<lparr>identities := identities w @ [i],
            accounts := accounts w @ [row],
            db_calls := db_calls w @ [Create aid n]\<rparr>))"

section \<open>BaseAuthenticator\<close>

subsection \<open>findIdentity and onboard\<close>

definition findIdentity :: "authenticator \<Rightarrow> account \<Rightarrow> world \<Rightarrow> identity option \<times> world" where
  "findIdentity self acct w = Core_Identity_findOne (acc_id acct) (name self) w"

definition onboard :: "authenticator \<Rightarrow> account \<Rightarrow> world \<Rightarrow> identity \<times> world" where
  "onboard self acct w =
     (case Core_Identity_create (acc_id acct) (name self) w of
        (ident, w1) \<Rightarrow>
          (case new_Date w1 of
             (now, w2) \<Rightarrow>
               (ident, emit ''authentication:onboard'' (OnboardPayload acct now ident) w2)))"

subsection \<open>identify\<close>

text \<open>
  The statements after the conditional, which the three branches that do not throw
  reach: emit \<^verbatim>\<open>authentication:authenticate\<close> and return \<^verbatim>\<open>{ req, res, user }\<close>. The
  calls of \<^verbatim>\<open>this.debug\<close> write to a debug log only and are left out.
\<close>

definition identify_return ::
  "auth_context \<Rightarrow> user \<Rightarrow> world \<Rightarrow> (js_error + user_context) \<times> world" where
  "identify_return ctx u w =
     (case new_Date w of
        (now, w1) \<Rightarrow>
          (Inr \<lparr>uc_req = req ctx, uc_res = res ctx, uc_user = u\<rparr>,
           emit ''authentication:authenticate'' (AuthenticatePayload now u) w1))"

definition identify ::
  "authenticator \<Rightarrow> auth_context \<Rightarrow> world \<Rightarrow> (js_error + user_context) \<times> world" where
  "identify self ctx w =
     (case account ctx of
        None \<Rightarrow> (Inl (TypeError ''Cannot read property deferred of undefined''), w)
      | Some acct \<Rightarrow>
          (let u = \<lparr>authenticator_account = acct, authenticator_name = name self,
                    user_id = None, user_deferred = None\<rparr>
           in if truthy (deferred acct) then identify_return ctx (u\<lparr>user_deferred := Some True\<rparr>) w
              else
                (case findIdentity self acct w of
                   (Some ident, w1) \<Rightarrow>
                     identify_return ctx (u\<lparr>user_id := Some (identity_id ident)\<rparr>) w1
                 | (None, w1) \<Rightarrow>
                     if truthy (get_prop w1 (config self) ''onboardKnownAccounts'') then
                       (case onboard self acct w1 of
                          (newIdentity, w2) \<Rightarrow>
                            identify_return ctx (u\<lparr>user_id := Some (identity_id newIdentity)\<rparr>) w2)
                     else
                       (Inl \<lparr>error_class = ''Error'',
                             message = ''Could not find identity for account'',
                             httpStatusCode = JNum NOT_FOUND\<rparr>, w1))))"

subsection \<open>authenticate, define, extend\<close>

text \<open>The base \<^verbatim>\<open>authenticate\<close> throws; a subclass overrides it.\<close>

definition authenticate ::
  "authenticator \<Rightarrow> auth_context \<Rightarrow> world \<Rightarrow> (thrown + auth_context) \<times> world" where
  "authenticate self ctx w =
     (Inl (ErrorObject
        \<lparr>error_class = ''Error'',
         message = ''Authenticator#authenticate must be subclassed. My name: '' @ name self,
         httpStatusCode = JNum INTERNAL_SERVER_ERROR\<rparr>), w)"

text \<open>\<^verbatim>\<open>define\<close> of the three classes (under another name, \<open>define\<close> being a keyword
  here): the base throws, the POST authenticator registers one route, the GET
  authenticator two.\<close>

fun define_routes :: "authenticator_class \<Rightarrow> authenticator \<Rightarrow> js_error + authenticator" where
  "define_routes BaseAuthenticator self =
     Inl \<lparr>error_class = ''Error'',
          message = ''Authenticator#define must be overriden by subclass'',
          httpStatusCode = JUndefined\<rparr>"
| "define_routes POSTAuthenticator self =
     Inr (self\<lparr>router := router self @
            [\<lparr>route_method = ''post'', route_path = ''/'',
              route_middleware = session (deps self), route_handler = Receiver\<rparr>]\<rparr>)"
| "define_routes GETAuthenticator self =
     Inr (self\<lparr>router := router self @
            [\<lparr>route_method = ''get'', route_path = ''/'',
              route_middleware = session (deps self), route_handler = Receiver\<rparr>,
             \<lparr>route_method = ''get'', route_path = ''/callback'',
              route_middleware = session (deps self), route_handler = Callback\<rparr>]\<rparr>)"

definition extend :: "authenticator \<Rightarrow> authenticator" where
  "extend self = self"

subsection \<open>attachModels\<close>

text \<open>\<^verbatim>\<open>name.startsWith(prefix)\<close> and \<^verbatim>\<open>name.slice(prefix.length)\<close>\<close>

definition startsWith :: "string \<Rightarrow> string \<Rightarrow> bool" where
  "startsWith s p = (take (length p) s = p)"

definition slice :: "string \<Rightarrow> nat \<Rightarrow> string" where
  "slice s n = drop n s"

text \<open>
  The function \<^verbatim>\<open>capitalize\<close> comes from a package outside the repository and is a
  parameter. The registry is the list of the properties of
  \<^verbatim>\<open>character.database.models\<close> in the order \<^verbatim>\<open>forEach\<close> visits them; the callback
  returns nothing, so the iteration never stops early.
\<close>

definition model_prefix :: "(string \<Rightarrow> string) \<Rightarrow> string \<Rightarrow> string" where
  "model_prefix capitalize nm = ''Authentication$'' @ capitalize nm @ ''$''"

definition attachModels :: "(string \<Rightarrow> string) \<Rightarrow> authenticator \<Rightarrow> world \<Rightarrow> authenticator" where
  "attachModels capitalize self w =
     (let prefix = model_prefix capitalize (name self)
      in self\<lparr>models :=
           fold (\<lambda>(nm, model) ms.
                   if startsWith nm prefix then ms(slice nm (length prefix) \<mapsto> model) else ms)
                (database_models w) Map.empty\<rparr>)"

subsection \<open>constructor\<close>

text \<open>
  \<^verbatim>\<open>clone\<close> of lodash makes a shallow copy: a new object with the same properties,
  whose values are copied as they are, references included.
\<close>

definition clone :: "nat \<Rightarrow> world \<Rightarrow> nat \<times> world" where
  "clone a w =
     (next_addr w,
      w\<lparr>heap := (heap w)(next_addr w := heap w a), next_addr := Suc (next_addr w)\<rparr>)"

definition constructor ::
  "(string \<Rightarrow> string) \<Rightarrow> authenticator_class \<Rightarrow> string \<Rightarrow> nat \<Rightarrow> deps \<Rightarrow> world
     \<Rightarrow> (js_error + authenticator) \<times> world" where
  "constructor capitalize cls nm cfg d w =
     (case clone cfg w of
        (c, w1) \<Rightarrow>
          (let self = \<lparr>name = nm, config = c, deps = d, models = Map.empty, router = []\<rparr>;
               self1 = attachModels capitalize self w1
           in case define_routes cls self1 of
                Inl e \<Rightarrow> (Inl e, w1)
              | Inr self2 \<Rightarrow> (Inr (extend self2), w1)))"

text \<open>What a caller that still holds the object can do to it afterwards: assign a
  property, delete a property.\<close>

definition set_prop :: "nat \<Rightarrow> string \<Rightarrow> jsval \<Rightarrow> world \<Rightarrow> world" where
  "set_prop a k v w = w\<lparr>heap := (heap w)(a := (heap w a)(k \<mapsto> v))\<rparr>"

definition delete_prop :: "nat \<Rightarrow> string \<Rightarrow> world \<Rightarrow> world" where
  "delete_prop a k w = w\<lparr>heap := (heap w)(a := (heap w a)(k := None))\<rparr>"

text \<open>Reading along a property path, as \<^verbatim>\<open>this.config.a.b\<close> does; a primitive has none of
  the properties concerned.\<close>

fun read_path :: "world \<Rightarrow> jsval \<Rightarrow> string list \<Rightarrow> jsval" where
  "read_path w v [] = v"
| "read_path w (JRef a) (k # ks) = read_path w (get_prop w a k) ks"
| "read_path w v (k # ks) = JUndefined"

subsection \<open>receiver\<close>

text \<open>
  \<^verbatim>\<open>querystring.escape\<close> keeps letters, digits and \<^verbatim>\<open>- _ . ! ~ * ' ( )\<close> and writes any
  other byte as a percent sign and two upper-case hexadecimal digits;
  \<^verbatim>\<open>querystring.stringify\<close> joins \<^verbatim>\<open>key=value\<close> pairs with an ampersand, a value that
  is not a primitive (here: \<^verbatim>\<open>undefined\<close>) giving the empty string.
\<close>

definition qs_unreserved :: "char list" where
  "qs_unreserved =
     ''abcdefghijklmnopqrstuvwxyzABCDEFGHIJKLMNOPQRSTUVWXYZ0123456789-_.!~*()'' @ [CHR 0x27]"

definition hex_digit :: "nat \<Rightarrow> char" where
  "hex_digit n = ''0123456789ABCDEF'' ! n"

definition escape_char :: "char \<Rightarrow> string" where
  "escape_char c =
     (if c \<in> set qs_unreserved then [c]
      else [CHR ''%'', hex_digit (of_char c div 16), hex_digit (of_char c mod 16)])"

definition queryString_escape :: "string \<Rightarrow> string" where
  "queryString_escape s = concat (map escape_char s)"

fun queryString_stringify :: "(string \<times> string option) list \<Rightarrow> string" where
  "queryString_stringify [] = []"
| "queryString_stringify [(k, v)] =
     queryString_escape k @ ''='' @ queryString_escape (case v of None \<Rightarrow> [] | Some s \<Rightarrow> s)"
| "queryString_stringify ((k, v) # kvs) =
     queryString_escape k @ ''='' @ queryString_escape (case v of None \<Rightarrow> [] | Some s \<Rightarrow> s)
       @ ''&'' @ queryString_stringify kvs"

text \<open>\<^verbatim>\<open>res.redirect(status, url)\<close> records what is sent on the response.\<close>

definition res_redirect :: "nat \<Rightarrow> int \<Rightarrow> jsval \<Rightarrow> world \<Rightarrow> world" where
  "res_redirect r status url w = w\<lparr>redirects := redirects w @ [(r, status, url)]\<rparr>"

text \<open>\<^verbatim>\<open>req.character.set({ user })\<close>\<close>

definition character_set :: "request \<Rightarrow> user \<Rightarrow> world \<Rightarrow> world" where
  "character_set rq u w = w\<lparr>sessions := sessions w @ [(req_id rq, u)]\<rparr>"

text \<open>\<^verbatim>\<open>context.user.deferred\<close> as a condition.\<close>

definition is_deferred :: "user \<Rightarrow> bool" where
  "is_deferred u = (case user_deferred u of None \<Rightarrow> False | Some b \<Rightarrow> b)"

text \<open>\<^verbatim>\<open>asyncpipe\<close> runs its functions in order, each on the result of the one before;
  the first one that throws ends the run.\<close>

definition pipe_then ::
  "('e + 'a) \<times> 's \<Rightarrow> ('a \<Rightarrow> 's \<Rightarrow> ('e + 'b) \<times> 's) \<Rightarrow> ('e + 'b) \<times> 's" where
  "pipe_then r f = (case r of (Inl e, s) \<Rightarrow> (Inl e, s) | (Inr a, s) \<Rightarrow> f a s)"

text \<open>The third and fourth functions of the pipe. The session is set on the \<^verbatim>\<open>req\<close> of
  \<^verbatim>\<open>receiver\<close>, the redirect is sent on the \<^verbatim>\<open>res\<close> of the context.\<close>

definition login_step ::
  "request \<Rightarrow> user_context \<Rightarrow> world \<Rightarrow> (js_error + user_context) \<times> world" where
  "login_step rq ctx w =
     (if \<not> is_deferred (uc_user ctx) then
        (if has_character rq then (Inr ctx, character_set rq (uc_user ctx) w)
         else (Inl (TypeError ''Cannot read property set of undefined''), w))
      else (Inr ctx, w))"

definition redirect_step ::
  "authenticator \<Rightarrow> user_context \<Rightarrow> world \<Rightarrow> (js_error + unit) \<times> world" where
  "redirect_step self ctx w =
     (case uc_res ctx of
        None \<Rightarrow> (Inl (TypeError ''Cannot read property redirect of undefined''), w)
      | Some r \<Rightarrow>
          (Inr (),
           res_redirect r SEE_OTHER
             (if is_deferred (uc_user ctx) then get_prop w (config self) ''deferredRedirect''
              else get_prop w (config self) ''successRedirect'') w))"

text \<open>The body of the \<^verbatim>\<open>try\<close>; \<open>auth\<close> is the \<^verbatim>\<open>authenticate\<close> of the class at hand.\<close>

definition pipeline ::
  "(auth_context \<Rightarrow> world \<Rightarrow> (thrown + auth_context) \<times> world)
     \<Rightarrow> authenticator \<Rightarrow> request \<Rightarrow> nat \<Rightarrow> world \<Rightarrow> (thrown + unit) \<times> world" where
  "pipeline auth self rq rs w =
     pipe_then
       (pipe_then
          (pipe_then (auth \<lparr>account = None, req = Some rq, res = Some rs\<rparr> w)
             (\<lambda>context w1. throwing (identify self context w1)))
          (\<lambda>context w2. throwing (login_step rq context w2)))
       (\<lambda>context w3. throwing (redirect_step self context w3))"

text \<open>
  The \<^verbatim>\<open>catch\<close> block. It first reads \<^verbatim>\<open>error.httpStatusCode\<close> from whatever was thrown:
  the property of an \<^verbatim>\<open>Error\<close> object or of a heap object, \<^verbatim>\<open>undefined\<close> on any other
  primitive, and a \<^verbatim>\<open>TypeError\<close> of its own when the thrown value is \<^verbatim>\<open>undefined\<close> or
  \<^verbatim>\<open>null\<close>.
\<close>

fun error_httpStatusCode :: "world \<Rightarrow> thrown \<Rightarrow> js_error + jsval" where
  "error_httpStatusCode w (ErrorObject e) = Inr (httpStatusCode e)"
| "error_httpStatusCode w (Thrown JUndefined) =
     Inl (TypeError ''Cannot read property httpStatusCode of undefined'')"
| "error_httpStatusCode w (Thrown JNull) =
     Inl (TypeError ''Cannot read property httpStatusCode of null'')"
| "error_httpStatusCode w (Thrown (JRef a)) = Inr (get_prop w a ''httpStatusCode'')"
| "error_httpStatusCode w (Thrown v) = Inr JUndefined"

text \<open>
  \<open>httpCodeMessage\<close> is the table \<^verbatim>\<open>STATUS_CODES\<close> of the \<^verbatim>\<open>http\<close> module, a parameter; it
  is indexed by the property key, the code as a string.
\<close>

definition failure_url :: "(string \<rightharpoonup> string) \<Rightarrow> authenticator \<Rightarrow> jsval \<Rightarrow> world \<Rightarrow> string" where
  "failure_url httpCodeMessage self code w =
     (let query = queryString_stringify
            [(''reason'', httpCodeMessage (to_string (js_or code (JNum INTERNAL_SERVER_ERROR))))]
      in to_string (get_prop w (config self) ''failureRedirect'') @ ''?'' @ query)"

text \<open>\<^verbatim>\<open>receiver\<close> returns normally (\<open>Inr\<close>) after a redirect of either kind; when the
  \<^verbatim>\<open>catch\<close> block itself throws, the promise is rejected (\<open>Inl\<close>) and nothing is sent.\<close>

definition receiver ::
  "(string \<rightharpoonup> string) \<Rightarrow> (auth_context \<Rightarrow> world \<Rightarrow> (thrown + auth_context) \<times> world)
     \<Rightarrow> authenticator \<Rightarrow> request \<Rightarrow> nat \<Rightarrow> world \<Rightarrow> (thrown + unit) \<times> world" where
  "receiver httpCodeMessage auth self rq rs w =
     (case pipeline auth self rq rs w of
        (Inr u, w1) \<Rightarrow> (Inr u, w1)
      | (Inl error, w1) \<Rightarrow>
          (case error_httpStatusCode w1 error of
             Inl e \<Rightarrow> (Inl (ErrorObject e), w1)
           | Inr code \<Rightarrow>
               (Inr (),
                res_redirect rs SEE_OTHER (JStr (failure_url httpCodeMessage self code w1)) w1)))"

section \<open>Example inputs\<close>

text \<open>
  A host with one identity, linked to the external account 7 of the authenticator
  \<^verbatim>\<open>local\<close>. Object 0 is a configuration a caller built, with a nested object 1; object 2 is
  the copy the authenticator \<^verbatim>\<open>local\<close> holds; object 3 is the configuration of an
  authenticator that does not onboard.
\<close>

definition example_config :: "string \<rightharpoonup> jsval" where
  "example_config =
     [''onboardKnownAccounts'' \<mapsto> JBool True,
      ''successRedirect'' \<mapsto> JStr ''/home'',
      ''deferredRedirect'' \<mapsto> JStr ''/sent'',
      ''failureRedirect'' \<mapsto> JStr ''/login'',
      ''smtp'' \<mapsto> JRef 1]"

definition example_heap :: "nat \<Rightarrow> (string \<rightharpoonup> jsval)" where
  "example_heap =
     (\<lambda>a. Map.empty)
       (0 := example_config,
        1 := [''host'' \<mapsto> JStr ''mail.example''],
        2 := example_config,
        3 := [''failureRedirect'' \<mapsto> JStr ''/login''])"

definition example_world :: world where
  "example_world =
     \<lparr>heap = example_heap,
      next_addr = 4,
      database_models =
        [(''Core$Identity'', 10), (''Authentication$Account'', 11),
         (''Authentication$Local$Token'', 12), (''Authentication$Github$Token'', 13)],
      identities = [1],
      accounts = [\<lparr>identityId = 1, authenticatorAccountId = 7, authenticatorName = ''local''\<rparr>],
      db_calls = [],
      emitted = [],
      sessions = [],
      redirects = [],
      clock = (\<lambda>n. 1000 + n),
      dates_read = 0\<rparr>"

definition example_deps :: deps where
  "example_deps = \<lparr>session = 20\<rparr>"

definition example_authenticator :: authenticator where
  "example_authenticator =
     \<lparr>name = ''local'', config = 2, deps = example_deps,
      models = [''Token'' \<mapsto> 12],
      router = [\<lparr>route_method = ''post'', route_path = ''/'',
                 route_middleware = 20, route_handler = Receiver\<rparr>]\<rparr>"

definition strict_authenticator :: authenticator where
  "strict_authenticator = example_authenticator\<lparr>config := 3\<rparr>"

text \<open>An instance of the parameter \<^verbatim>\<open>capitalize\<close>: the first letter in upper case.\<close>

definition capitalize_ascii :: "string \<Rightarrow> string" where
  "capitalize_ascii s =
     (case s of
        [] \<Rightarrow> []
      | c # cs \<Rightarrow>
          (case map_of (zip ''abcdefghijklmnopqrstuvwxyz'' ''ABCDEFGHIJKLMNOPQRSTUVWXYZ'') c of
             None \<Rightarrow> c
           | Some u \<Rightarrow> u) # cs)"

text \<open>Two entries of the table \<^verbatim>\<open>STATUS_CODES\<close>.\<close>

definition example_codes :: "string \<rightharpoonup> string" where
  "example_codes = [''404'' \<mapsto> ''Not Found'', ''500'' \<mapsto> ''Internal Server Error'']"

text \<open>Overrides of \<^verbatim>\<open>authenticate\<close>: one that returns a fixed account, one that returns
  a context without an account, one that throws a given value.\<close>

definition authenticate_as ::
  "account \<Rightarrow> auth_context \<Rightarrow> world \<Rightarrow> (thrown + auth_context) \<times> world" where
  "authenticate_as acct ctx w = (Inr (ctx\<lparr>account := Some acct\<rparr>), w)"


definition authenticate_throws ::
  "thrown \<Rightarrow> auth_context \<Rightarrow> world \<Rightarrow> (thrown + auth_context) \<times> world" where
  "authenticate_throws v ctx w = (Inl v, w)"

section \<open>Facts about the host services\<close>

lemma findIdentity_world:
  "snd (findIdentity self acct w)
     = w\<lparr>db_calls := db_calls w @ [FindOne (acc_id acct) (name self)]\<rparr>"
  by (simp add: findIdentity_def Core_Identity_findOne_def)

lemma findIdentity_eq:
  "fst (findIdentity self acct w) = r \<Longrightarrow>
   findIdentity self acct w
     = (r, w\<lparr>db_calls := db_calls w @ [FindOne (acc_id acct) (name self)]\<rparr>)"
  using findIdentity_world [of self acct w] by (cases "findIdentity self acct w") simp

lemma get_prop_db_calls [simp]: "get_prop (w\<lparr>db_calls := c\<rparr>) a k = get_prop w a k"
  by (simp add: get_prop_def)

text \<open>The id given to a new identity is not in the table yet.\<close>

lemma fold_max_ge: "(m::int) \<le> fold max xs m"
  by (induction xs arbitrary: m) (auto intro: order_trans [OF max.cobounded2])

lemma fold_max_member: "x \<in> set xs \<Longrightarrow> (x::int) \<le> fold max xs m"
proof (induction xs arbitrary: m)
  case Nil
  then show ?case by simp
next
  case (Cons y ys)
  show ?case
  proof (cases "x = y")
    case True
    have "x \<le> max y m" using True by simp
    also have "\<dots> \<le> fold max ys (max y m)" by (rule fold_max_ge)
    finally show ?thesis by simp
  next
    case False
    with Cons.prems have "x \<in> set ys" by simp
    then show ?thesis using Cons.IH by simp
  qed
qed

lemma next_identity_id_fresh: "next_identity_id ids \<notin> set ids"
proof
  assume "next_identity_id ids \<in> set ids"
  then have "next_identity_id ids \<le> fold max ids 0" by (rule fold_max_member)
  then show False by (simp add: next_identity_id_def)
qed

text \<open>
  Every run of \<^verbatim>\<open>onboard\<close> leaves one \<open>Create\<close> in the call log, one more row in each
  table and one \<^verbatim>\<open>authentication:onboard\<close> event. So a call log without a new \<open>Create\<close>
  and an event list without a new onboarding event show that \<^verbatim>\<open>onboard\<close> did not run.
\<close>

lemma onboard_effects:
  "db_calls (snd (onboard self acct w)) = db_calls w @ [Create (acc_id acct) (name self)]
   \<and> identities (snd (onboard self acct w))
       = identities w @ [identity_id (fst (onboard self acct w))]
   \<and> length (accounts (snd (onboard self acct w))) = Suc (length (accounts w))
   \<and> emitted (snd (onboard self acct w))
       = emitted w @ [(''authentication:onboard'',
                       OnboardPayload acct (clock w (dates_read w)) (fst (onboard self acct w)))]"
  by (simp add: onboard_def Core_Identity_create_def new_Date_def emit_def Let_def)

section \<open>Properties of identify\<close>

text \<open>
  C1. For every account whose \<^verbatim>\<open>deferred\<close> flag is truthy, \<^verbatim>\<open>identify\<close> performs no
  identity-store lookup and no identity creation (the call log and both tables are as
  before; the only effects are the clock reading and the event), and the user it
  returns has \<^verbatim>\<open>deferred = true\<close> and no \<^verbatim>\<open>id\<close> field.
\<close>

theorem identify_deferred:
  assumes "account ctx = Some acct" and "truthy (deferred acct)"
  shows "identify self ctx w =
           (Inr \<lparr>uc_req = req ctx, uc_res = res ctx,
                 uc_user = \<lparr>authenticator_account = acct, authenticator_name = name self,
                            user_id = None, user_deferred = Some True\<rparr>\<rparr>,
            w\<lparr>emitted := emitted w @
                 [(''authentication:authenticate'',
                   AuthenticatePayload (clock w (dates_read w))
                     \<lparr>authenticator_account = acct, authenticator_name = name self,
                      user_id = None, user_deferred = Some True\<rparr>)],
              dates_read := Suc (dates_read w)\<rparr>)
       \<and> db_calls (snd (identify self ctx w)) = db_calls w
       \<and> identities (snd (identify self ctx w)) = identities w
       \<and> accounts (snd (identify self ctx w)) = accounts w"
  using assms by (simp add: identify_def identify_return_def new_Date_def emit_def)

theorem identify_deferred_witness:
  "account \<lparr>account = Some \<lparr>acc_id = 8, deferred = JStr ''link''\<rparr>, req = None, res = Some 4\<rparr>
     = Some \<lparr>acc_id = 8, deferred = JStr ''link''\<rparr>
   \<and> truthy (deferred \<lparr>acc_id = 8, deferred = JStr ''link''\<rparr>)
   \<and> fst (identify example_authenticator
        \<lparr>account = Some \<lparr>acc_id = 8, deferred = JStr ''link''\<rparr>, req = None, res = Some 4\<rparr>
        example_world)
     = Inr \<lparr>uc_req = None, uc_res = Some 4,
            uc_user = \<lparr>authenticator_account = \<lparr>acc_id = 8, deferred = JStr ''link''\<rparr>,
                       authenticator_name = ''local'', user_id = None,
                       user_deferred = Some True\<rparr>\<rparr>
   \<and> db_calls (snd (identify example_authenticator
        \<lparr>account = Some \<lparr>acc_id = 8, deferred = JStr ''link''\<rparr>, req = None, res = Some 4\<rparr>
        example_world)) = []
   \<and> identities (snd (identify example_authenticator
        \<lparr>account = Some \<lparr>acc_id = 8, deferred = JStr ''link''\<rparr>, req = None, res = Some 4\<rparr>
        example_world)) = [1]"
proof -
  let ?a = "\<lparr>acc_id = 8, deferred = JStr ''link''\<rparr>"
  let ?c = "\<lparr>account = Some ?a, req = None, res = Some 4\<rparr>"
  have h1: "account ?c = Some ?a" by simp
  have h2: "truthy (deferred ?a)" by simp
  show ?thesis
    using identify_deferred [OF h1 h2, of example_authenticator example_world]
    by (simp add: example_world_def example_authenticator_def)
qed

text \<open>
  C2. For every account that is not deferred and for which \<^verbatim>\<open>findIdentity\<close> returns an
  existing linked identity, \<^verbatim>\<open>identify\<close> returns a user whose \<^verbatim>\<open>id\<close> is that identity's
  id, and \<^verbatim>\<open>onboard\<close> is never called: the only call to the store is the lookup, both
  tables are as before, and the only event is \<^verbatim>\<open>authentication:authenticate\<close>.
\<close>

theorem identify_existing_identity:
  assumes "account ctx = Some acct" and "\<not> truthy (deferred acct)"
    and "fst (findIdentity self acct w) = Some ident"
  shows "identify self ctx w =
           (Inr \<lparr>uc_req = req ctx, uc_res = res ctx,
                 uc_user = \<lparr>authenticator_account = acct, authenticator_name = name self,
                            user_id = Some (identity_id ident), user_deferred = None\<rparr>\<rparr>,
            w\<lparr>db_calls := db_calls w @ [FindOne (acc_id acct) (name self)],
              emitted := emitted w @
                 [(''authentication:authenticate'',
                   AuthenticatePayload (clock w (dates_read w))
                     \<lparr>authenticator_account = acct, authenticator_name = name self,
                      user_id = Some (identity_id ident), user_deferred = None\<rparr>)],
              dates_read := Suc (dates_read w)\<rparr>)
       \<and> identities (snd (identify self ctx w)) = identities w
       \<and> accounts (snd (identify self ctx w)) = accounts w"
  using assms(1,2) findIdentity_eq [OF assms(3)]
  by (simp add: identify_def identify_return_def new_Date_def emit_def)

theorem identify_existing_identity_witness:
  "\<not> truthy (deferred \<lparr>acc_id = 7, deferred = JUndefined\<rparr>)
   \<and> fst (findIdentity example_authenticator \<lparr>acc_id = 7, deferred = JUndefined\<rparr> example_world)
       = Some \<lparr>identity_id = 1, authentication_Accounts = []\<rparr>
   \<and> fst (identify example_authenticator
        \<lparr>account = Some \<lparr>acc_id = 7, deferred = JUndefined\<rparr>, req = None, res = Some 4\<rparr>
        example_world)
     = Inr \<lparr>uc_req = None, uc_res = Some 4,
            uc_user = \<lparr>authenticator_account = \<lparr>acc_id = 7, deferred = JUndefined\<rparr>,
                       authenticator_name = ''local'', user_id = Some 1,
                       user_deferred = None\<rparr>\<rparr>
   \<and> db_calls (snd (identify example_authenticator
        \<lparr>account = Some \<lparr>acc_id = 7, deferred = JUndefined\<rparr>, req = None, res = Some 4\<rparr>
        example_world)) = [FindOne 7 ''local'']
   \<and> identities (snd (identify example_authenticator
        \<lparr>account = Some \<lparr>acc_id = 7, deferred = JUndefined\<rparr>, req = None, res = Some 4\<rparr>
        example_world)) = [1]"
proof -
  let ?a = "\<lparr>acc_id = 7, deferred = JUndefined\<rparr>"
  let ?c = "\<lparr>account = Some ?a, req = None, res = Some 4\<rparr>"
  have h1: "account ?c = Some ?a" by simp
  have h2: "\<not> truthy (deferred ?a)" by simp
  have h3: "fst (findIdentity example_authenticator ?a example_world)
              = Some \<lparr>identity_id = 1, authentication_Accounts = []\<rparr>"
    by (simp add: findIdentity_def Core_Identity_findOne_def linked_def example_world_def
        example_authenticator_def)
  show ?thesis
    using h3 identify_existing_identity [OF h1 h2 h3]
    by (simp add: example_world_def example_authenticator_def)
qed

text \<open>
  C3. For every account that is not deferred and has no linked identity, under a
  configuration whose \<^verbatim>\<open>onboardKnownAccounts\<close> is truthy, \<^verbatim>\<open>identify\<close> runs \<^verbatim>\<open>onboard\<close>
  exactly once: one \<open>Create\<close> follows the lookup in the call log, the identity table gains
  exactly one id, which was not in it, the account table gains exactly one row linking
  the external id and the authenticator name to that identity, the event
  \<^verbatim>\<open>authentication:onboard\<close> carries the account, the identity and a clock reading, and
  the user returned has the new identity's id.
\<close>

theorem identify_onboards:
  assumes "account ctx = Some acct" and "\<not> truthy (deferred acct)"
    and "fst (findIdentity self acct w) = None"
    and "truthy (get_prop w (config self) ''onboardKnownAccounts'')"
  shows "let i = next_identity_id (identities w);
             row = \<lparr>identityId = i, authenticatorAccountId = acc_id acct,
                    authenticatorName = name self\<rparr>;
             ident = \<lparr>identity_id = i, authentication_Accounts = [row]\<rparr>;
             u = \<lparr>authenticator_account = acct, authenticator_name = name self,
                  user_id = Some i, user_deferred = None\<rparr>
         in i \<notin> set (identities w)
          \<and> identify self ctx w =
              (Inr \<lparr>uc_req = req ctx, uc_res = res ctx, uc_user = u\<rparr>,
               w\<lparr>identities := identities w @ [i],
                 accounts := accounts w @ [row],
                 db_calls := db_calls w @
                   [FindOne (acc_id acct) (name self), Create (acc_id acct) (name self)],
                 emitted := emitted w @
                   [(''authentication:onboard'',
                     OnboardPayload acct (clock w (dates_read w)) ident),
                    (''authentication:authenticate'',
                     AuthenticatePayload (clock w (Suc (dates_read w))) u)],
                 dates_read := Suc (Suc (dates_read w))\<rparr>)"
  using assms(1,2,4) findIdentity_eq [OF assms(3)]
  by (simp add: identify_def identify_return_def onboard_def Core_Identity_create_def
      new_Date_def emit_def Let_def next_identity_id_fresh)

theorem identify_onboards_witness:
  "\<not> truthy (deferred \<lparr>acc_id = 8, deferred = JUndefined\<rparr>)
   \<and> fst (findIdentity example_authenticator \<lparr>acc_id = 8, deferred = JUndefined\<rparr> example_world)
       = None
   \<and> truthy (get_prop example_world (config example_authenticator) ''onboardKnownAccounts'')
   \<and> fst (identify example_authenticator
        \<lparr>account = Some \<lparr>acc_id = 8, deferred = JUndefined\<rparr>, req = None, res = Some 4\<rparr>
        example_world)
     = Inr \<lparr>uc_req = None, uc_res = Some 4,
            uc_user = \<lparr>authenticator_account = \<lparr>acc_id = 8, deferred = JUndefined\<rparr>,
                       authenticator_name = ''local'', user_id = Some 2,
                       user_deferred = None\<rparr>\<rparr>
   \<and> identities (snd (identify example_authenticator
        \<lparr>account = Some \<lparr>acc_id = 8, deferred = JUndefined\<rparr>, req = None, res = Some 4\<rparr>
        example_world)) = [1, 2]
   \<and> accounts (snd (identify example_authenticator
        \<lparr>account = Some \<lparr>acc_id = 8, deferred = JUndefined\<rparr>, req = None, res = Some 4\<rparr>
        example_world))
     = [\<lparr>identityId = 1, authenticatorAccountId = 7, authenticatorName = ''local''\<rparr>,
        \<lparr>identityId = 2, authenticatorAccountId = 8, authenticatorName = ''local''\<rparr>]
   \<and> map fst (emitted (snd (identify example_authenticator
        \<lparr>account = Some \<lparr>acc_id = 8, deferred = JUndefined\<rparr>, req = None, res = Some 4\<rparr>
        example_world)))
     = [''authentication:onboard'', ''authentication:authenticate'']"
proof -
  let ?a = "\<lparr>acc_id = 8, deferred = JUndefined\<rparr>"
  let ?c = "\<lparr>account = Some ?a, req = None, res = Some 4\<rparr>"
  have h1: "account ?c = Some ?a" by simp
  have h2: "\<not> truthy (deferred ?a)" by simp
  have h3: "fst (findIdentity example_authenticator ?a example_world) = None"
    by (simp add: findIdentity_def Core_Identity_findOne_def linked_def example_world_def
        example_authenticator_def)
  have h4: "truthy (get_prop example_world (config example_authenticator) ''onboardKnownAccounts'')"
    by (simp add: get_prop_def example_world_def example_heap_def example_config_def
        example_authenticator_def)
  have n: "next_identity_id (identities example_world) = 2"
    by (simp add: next_identity_id_def example_world_def)
  show ?thesis
    using h3 h4 identify_onboards [OF h1 h2 h3 h4]
    by (simp add: Let_def n) (simp add: example_world_def example_authenticator_def)
qed

text \<open>
  C4. For every account that is not deferred and has no linked identity, under a
  configuration whose \<^verbatim>\<open>onboardKnownAccounts\<close> is not truthy, \<^verbatim>\<open>identify\<close> throws an error
  whose \<^verbatim>\<open>httpStatusCode\<close> is 404 (Not Found); no identity or account row is created and
  no event is emitted: apart from the logged lookup the world is as before.
\<close>

theorem identify_not_found:
  assumes "account ctx = Some acct" and "\<not> truthy (deferred acct)"
    and "fst (findIdentity self acct w) = None"
    and "\<not> truthy (get_prop w (config self) ''onboardKnownAccounts'')"
  shows "identify self ctx w =
           (Inl \<lparr>error_class = ''Error'', message = ''Could not find identity for account'',
                 httpStatusCode = JNum 404\<rparr>,
            w\<lparr>db_calls := db_calls w @ [FindOne (acc_id acct) (name self)]\<rparr>)
       \<and> identities (snd (identify self ctx w)) = identities w
       \<and> accounts (snd (identify self ctx w)) = accounts w
       \<and> emitted (snd (identify self ctx w)) = emitted w
       \<and> sessions (snd (identify self ctx w)) = sessions w"
  using assms(1,2,4) findIdentity_eq [OF assms(3)]
  by (simp add: identify_def NOT_FOUND_def)

theorem identify_not_found_witness:
  "\<not> truthy (deferred \<lparr>acc_id = 8, deferred = JUndefined\<rparr>)
   \<and> fst (findIdentity strict_authenticator \<lparr>acc_id = 8, deferred = JUndefined\<rparr> example_world)
       = None
   \<and> \<not> truthy (get_prop example_world (config strict_authenticator) ''onboardKnownAccounts'')
   \<and> map_sum httpStatusCode uc_user (fst (identify strict_authenticator
        \<lparr>account = Some \<lparr>acc_id = 8, deferred = JUndefined\<rparr>, req = None, res = Some 4\<rparr>
        example_world)) = Inl (JNum 404)
   \<and> identities (snd (identify strict_authenticator
        \<lparr>account = Some \<lparr>acc_id = 8, deferred = JUndefined\<rparr>, req = None, res = Some 4\<rparr>
        example_world)) = [1]
   \<and> emitted (snd (identify strict_authenticator
        \<lparr>account = Some \<lparr>acc_id = 8, deferred = JUndefined\<rparr>, req = None, res = Some 4\<rparr>
        example_world)) = []"
proof -
  let ?a = "\<lparr>acc_id = 8, deferred = JUndefined\<rparr>"
  let ?c = "\<lparr>account = Some ?a, req = None, res = Some 4\<rparr>"
  have h1: "account ?c = Some ?a" by simp
  have h2: "\<not> truthy (deferred ?a)" by simp
  have h3: "fst (findIdentity strict_authenticator ?a example_world) = None"
    by (simp add: findIdentity_def Core_Identity_findOne_def linked_def example_world_def
        strict_authenticator_def example_authenticator_def)
  have h4: "\<not> truthy (get_prop example_world (config strict_authenticator)
              ''onboardKnownAccounts'')"
    by (simp add: get_prop_def example_world_def example_heap_def
        strict_authenticator_def example_authenticator_def)
  show ?thesis
    using h3 h4 identify_not_found [OF h1 h2 h3 h4]
    by (simp add: example_world_def)
qed

text \<open>
  C10. On every successful return \<^verbatim>\<open>identify\<close> has emitted
  \<^verbatim>\<open>authentication:authenticate\<close>, once, as its last event, with the user it returns and
  the last clock reading; a deferred account is no exception.
\<close>

theorem identify_emits_authenticate:
  assumes "identify self ctx w = (Inr uc, w')"
  shows "emitted w' \<noteq> []
       \<and> last (emitted w') =
           (''authentication:authenticate'',
            AuthenticatePayload (clock w (dates_read w' - 1)) (uc_user uc))
       \<and> length (filter (\<lambda>e. fst e = ''authentication:authenticate'') (emitted w'))
           = Suc (length (filter (\<lambda>e. fst e = ''authentication:authenticate'') (emitted w)))"
  using assms
  by (auto simp: identify_def identify_return_def onboard_def Core_Identity_create_def
      findIdentity_def Core_Identity_findOne_def new_Date_def emit_def Let_def
      split: option.splits if_splits prod.splits)

theorem identify_emits_authenticate_witness:
  "identify example_authenticator
     \<lparr>account = Some \<lparr>acc_id = 8, deferred = JBool True\<rparr>, req = None, res = Some 4\<rparr>
     example_world
   = (Inr \<lparr>uc_req = None, uc_res = Some 4,
           uc_user = \<lparr>authenticator_account = \<lparr>acc_id = 8, deferred = JBool True\<rparr>,
                      authenticator_name = ''local'', user_id = None,
                      user_deferred = Some True\<rparr>\<rparr>,
      example_world\<lparr>emitted :=
          [(''authentication:authenticate'',
            AuthenticatePayload 1000
              \<lparr>authenticator_account = \<lparr>acc_id = 8, deferred = JBool True\<rparr>,
               authenticator_name = ''local'', user_id = None, user_deferred = Some True\<rparr>)],
        dates_read := 1\<rparr>)
   \<and> last (emitted (example_world\<lparr>emitted :=
          [(''authentication:authenticate'',
            AuthenticatePayload 1000
              \<lparr>authenticator_account = \<lparr>acc_id = 8, deferred = JBool True\<rparr>,
               authenticator_name = ''local'', user_id = None, user_deferred = Some True\<rparr>)],
        dates_read := 1\<rparr>))
     = (''authentication:authenticate'',
        AuthenticatePayload 1000
          \<lparr>authenticator_account = \<lparr>acc_id = 8, deferred = JBool True\<rparr>,
           authenticator_name = ''local'', user_id = None, user_deferred = Some True\<rparr>)"
proof -
  let ?u = "\<lparr>authenticator_account = \<lparr>acc_id = 8, deferred = JBool True\<rparr>,
            authenticator_name = ''local'', user_id = None, user_deferred = Some True\<rparr>"
  let ?w' = "example_world\<lparr>emitted :=
               [(''authentication:authenticate'', AuthenticatePayload 1000 ?u)],
             dates_read := 1\<rparr>"
  have h: "identify example_authenticator
     \<lparr>account = Some \<lparr>acc_id = 8, deferred = JBool True\<rparr>, req = None, res = Some 4\<rparr>
     example_world
   = (Inr \<lparr>uc_req = None, uc_res = Some 4, uc_user = ?u\<rparr>, ?w')"
    by (simp add: identify_def identify_return_def new_Date_def emit_def
        example_world_def example_authenticator_def)
  have c: "clock example_world (dates_read ?w' - 1) = 1000"
    by (simp add: example_world_def)
  show ?thesis
    using h c identify_emits_authenticate [OF h] by simp
qed

section \<open>Round trip of onboard and findIdentity\<close>

lemma find_append_fresh:
  "find P xs = None \<Longrightarrow> find P (xs @ [y]) = (if P y then Some y else None)"
  by (induction xs) (auto split: if_splits)

lemma linked_append:
  "linked (rows @ [r]) aid n i =
     (linked rows aid n i
      \<or> (identityId r = i \<and> authenticatorAccountId r = aid \<and> authenticatorName r = n))"
  by (auto simp: linked_def)

lemma find_cong_set: "(\<And>x. x \<in> set xs \<Longrightarrow> P x = Q x) \<Longrightarrow> find P xs = find Q xs"
  by (induction xs) auto

text \<open>
  C5, as amended. When no identity is linked to the account's external id under the
  authenticator's name before the onboarding (the situation in which \<^verbatim>\<open>identify\<close> calls
  \<^verbatim>\<open>onboard\<close>), a \<^verbatim>\<open>findIdentity\<close> after \<^verbatim>\<open>onboard\<close>, on an account with the same external
  id under the same name, returns an identity with the id of the onboarded one.
\<close>

theorem onboard_then_findIdentity:
  assumes "fst (findIdentity self acct w) = None" and "acc_id acct' = acc_id acct"
  shows "map_option identity_id (fst (findIdentity self acct' (snd (onboard self acct w))))
           = Some (identity_id (fst (onboard self acct w)))"
proof -
  let ?i = "next_identity_id (identities w)"
  let ?row = "\<lparr>identityId = ?i, authenticatorAccountId = acc_id acct,
               authenticatorName = name self\<rparr>"
  let ?P = "linked (accounts w) (acc_id acct) (name self)"
  let ?Q = "linked (accounts w @ [?row]) (acc_id acct) (name self)"
  from assms(1) have none: "find ?P (identities w) = None"
    by (simp add: findIdentity_def Core_Identity_findOne_def)
  have "\<And>x. x \<in> set (identities w) \<Longrightarrow> ?Q x = ?P x"
    using next_identity_id_fresh [of "identities w"] by (auto simp: linked_append)
  then have "find ?Q (identities w) = find ?P (identities w)"
    by (rule find_cong_set)
  with none have "find ?Q (identities w) = None" by simp
  then have "find ?Q (identities w @ [?i]) = Some ?i"
    by (simp add: find_append_fresh linked_append)
  then show ?thesis
    using assms(2)
    by (simp add: findIdentity_def Core_Identity_findOne_def onboard_def
        Core_Identity_create_def new_Date_def emit_def Let_def)
qed

theorem onboard_then_findIdentity_witness:
  "fst (findIdentity example_authenticator \<lparr>acc_id = 8, deferred = JUndefined\<rparr> example_world)
     = None
   \<and> identity_id (fst (onboard example_authenticator \<lparr>acc_id = 8, deferred = JUndefined\<rparr>
        example_world)) = 2
   \<and> map_option identity_id
       (fst (findIdentity example_authenticator \<lparr>acc_id = 8, deferred = JStr []\<rparr>
          (snd (onboard example_authenticator \<lparr>acc_id = 8, deferred = JUndefined\<rparr>
             example_world))))
     = Some 2"
proof -
  let ?a = "\<lparr>acc_id = 8, deferred = JUndefined\<rparr>"
  let ?a' = "\<lparr>acc_id = 8, deferred = JStr []\<rparr>"
  have h1: "fst (findIdentity example_authenticator ?a example_world) = None"
    by (simp add: findIdentity_def Core_Identity_findOne_def linked_def example_world_def
        example_authenticator_def)
  have h2: "acc_id ?a' = acc_id ?a" by simp
  have i: "identity_id (fst (onboard example_authenticator ?a example_world)) = 2"
    by (simp add: onboard_def Core_Identity_create_def new_Date_def emit_def Let_def
        next_identity_id_def example_world_def)
  show ?thesis
    using h1 i onboard_then_findIdentity [OF h1 h2] by simp
qed

text \<open>
  The claim as stated, for every account, fails where an identity is already linked to
  the pair: in the example host identity 1 is linked to the external account 7 of
  \<^verbatim>\<open>local\<close>; onboarding account 7 again creates identity 2, and the lookup after it
  returns identity 1.
\<close>

theorem onboard_then_findIdentity_counterexample:
  "identity_id (fst (onboard example_authenticator \<lparr>acc_id = 7, deferred = JUndefined\<rparr>
      example_world)) = 2
   \<and> map_option identity_id
       (fst (findIdentity example_authenticator \<lparr>acc_id = 7, deferred = JUndefined\<rparr>
          (snd (onboard example_authenticator \<lparr>acc_id = 7, deferred = JUndefined\<rparr>
             example_world))))
     = Some 1"
  by (simp add: findIdentity_def Core_Identity_findOne_def onboard_def
      Core_Identity_create_def new_Date_def emit_def Let_def example_world_def
      example_authenticator_def next_identity_id_def linked_def)

section \<open>Properties of the constructor\<close>

text \<open>The routes of the POST authenticator: one, POST on the root path, behind the
  session middleware, handled by \<^verbatim>\<open>receiver\<close>.\<close>

lemma define_routes_POST:
  "define_routes POSTAuthenticator self = Inr self'
   \<Longrightarrow> router self' = router self @
         [\<lparr>route_method = ''post'', route_path = ''/'',
           route_middleware = session (deps self), route_handler = Receiver\<rparr>]"
  by auto

text \<open>The base class cannot be constructed: its \<^verbatim>\<open>define\<close> throws.\<close>

lemma constructor_base_throws:
  "\<exists>e. fst (constructor capitalize BaseAuthenticator nm cfg d w) = Inl e"
  by (simp add: constructor_def clone_def Let_def)

text \<open>
  C8, as amended. The constructor takes a shallow copy of the configuration object: the
  stored configuration is a new object with the properties the caller's object had, and
  assigning or deleting a property of the caller's object, in whatever later state,
  leaves every property of the stored configuration (such as the redirect URLs) as it
  was. (\<open>cfg < next_addr w\<close>: the caller's object exists.)
\<close>

theorem constructor_copies_config:
  assumes "constructor capitalize cls nm cfg d w = (Inr self, w')" and "cfg < next_addr w"
  shows "config self \<noteq> cfg
       \<and> get_prop w' (config self) k' = get_prop w cfg k'
       \<and> get_prop (set_prop cfg k v w'') (config self) k' = get_prop w'' (config self) k'
       \<and> get_prop (delete_prop cfg k w'') (config self) k' = get_prop w'' (config self) k'"
proof -
  have c: "config self = next_addr w"
    using assms(1)
    by (cases cls)
      (auto simp: constructor_def clone_def attachModels_def extend_def Let_def)
  have w': "w' = w\<lparr>heap := (heap w)(next_addr w := heap w cfg), next_addr := Suc (next_addr w)\<rparr>"
    using assms(1)
    by (cases cls)
      (auto simp: constructor_def clone_def attachModels_def extend_def Let_def)
  from c assms(2) have ne: "config self \<noteq> cfg" by simp
  show ?thesis
    using ne by (simp add: c w' get_prop_def set_prop_def delete_prop_def)
qed

theorem constructor_copies_config_witness:
  "constructor capitalize_ascii POSTAuthenticator ''local'' 0 example_deps example_world
     = (Inr (example_authenticator\<lparr>config := 4\<rparr>),
        example_world\<lparr>heap := (heap example_world)(4 := heap example_world 0), next_addr := 5\<rparr>)
   \<and> (0::nat) < next_addr example_world
   \<and> get_prop (set_prop 0 ''successRedirect'' (JStr ''/elsewhere'')
        (example_world\<lparr>heap := (heap example_world)(4 := heap example_world 0), next_addr := 5\<rparr>))
        4 ''successRedirect'' = JStr ''/home''"
proof -
  let ?w' = "example_world\<lparr>heap := (heap example_world)(4 := heap example_world 0),
               next_addr := 5\<rparr>"
  have h1: "constructor capitalize_ascii POSTAuthenticator ''local'' 0 example_deps example_world
     = (Inr (example_authenticator\<lparr>config := 4\<rparr>), ?w')"
    by (simp add: constructor_def clone_def attachModels_def extend_def Let_def
        example_world_def example_authenticator_def example_deps_def model_prefix_def
        capitalize_ascii_def startsWith_def slice_def)
  have h2: "(0::nat) < next_addr example_world" by (simp add: example_world_def)
  have v: "get_prop ?w' 4 ''successRedirect'' = JStr ''/home''"
    by (simp add: get_prop_def example_world_def example_heap_def example_config_def)
  show ?thesis
    using h1 h2 v
      constructor_copies_config [OF h1 h2, of "''successRedirect''" "''successRedirect''"
        "JStr ''/elsewhere''" ?w']
    by (simp add: example_authenticator_def)
qed

text \<open>
  The claim as stated, with nested values included, fails: the copy shares the objects
  nested in the configuration. In the example host the caller's configuration (object
  0) has the nested object 1 under \<^verbatim>\<open>smtp\<close>; after construction the caller assigns
  \<^verbatim>\<open>config.smtp.host\<close>, and the authenticator's \<^verbatim>\<open>this.config.smtp.host\<close> changes with it.
\<close>

theorem constructor_nested_config_counterexample:
  "config (projr (fst (constructor capitalize_ascii POSTAuthenticator ''local'' 0 example_deps
       example_world))) = 4
   \<and> read_path (snd (constructor capitalize_ascii POSTAuthenticator ''local'' 0 example_deps
         example_world)) (JRef 4) [''smtp'', ''host''] = JStr ''mail.example''
   \<and> read_path (set_prop 1 ''host'' (JStr ''evil.example'')
        (snd (constructor capitalize_ascii POSTAuthenticator ''local'' 0 example_deps
           example_world))) (JRef 4) [''smtp'', ''host''] = JStr ''evil.example''"
  by (simp add: constructor_def clone_def attachModels_def extend_def Let_def
      example_world_def example_heap_def example_config_def get_prop_def set_prop_def)

lemma startsWith_slice: "(startsWith nm p \<and> slice nm (length p) = s) = (nm = p @ s)"
  unfolding startsWith_def slice_def
  by (metis append_eq_conv_conj)

lemma fold_attach:
  "distinct (map fst reg) \<Longrightarrow>
   fold (\<lambda>(nm, model) ms. if startsWith nm p then ms(slice nm (length p) \<mapsto> model) else ms)
     reg m s
     = (case map_of reg (p @ s) of Some v \<Rightarrow> Some v | None \<Rightarrow> m s)"
proof (induction reg arbitrary: m)
  case Nil
  then show ?case by simp
next
  case (Cons e reg)
  let ?f = "\<lambda>(nm, model) ms.
              if startsWith nm p then ms(slice nm (length p) \<mapsto> model) else ms"
  obtain nm model where e: "e = (nm, model)" by (cases e)
  from Cons.prems e have d: "distinct (map fst reg)" and fresh: "nm \<notin> fst ` set reg" by auto
  have step: "fold ?f (e # reg) m s = fold ?f reg (?f e m) s" by simp
  have ih: "fold ?f reg (?f e m) s
              = (case map_of reg (p @ s) of Some v \<Rightarrow> Some v | None \<Rightarrow> ?f e m s)"
    by (rule Cons.IH [OF d])
  show ?case
  proof (cases "nm = p @ s")
    case True
    then have "startsWith nm p" and "slice nm (length p) = s"
      using startsWith_slice [of nm p s] by auto
    then have fe: "?f e m s = Some model" using e by simp
    from fresh True have none: "map_of reg (p @ s) = None"
      by (simp add: map_of_eq_None_iff)
    have "map_of (e # reg) (p @ s) = Some model" using e True by simp
    then show ?thesis by (simp only: step ih fe none option.case)
  next
    case False
    then have "\<not> (startsWith nm p \<and> slice nm (length p) = s)"
      using startsWith_slice [of nm p s] by simp
    then have fe: "?f e m s = m s" using e by auto
    have mo: "map_of (e # reg) (p @ s) = map_of reg (p @ s)" using e False by simp
    show ?thesis by (simp only: step ih fe mo)
  qed
qed

text \<open>
  C9. \<^verbatim>\<open>attachModels\<close> binds exactly the models of the registry whose names start with
  \<^verbatim>\<open>Authentication$<CapitalizedName>$\<close>, each under the rest of its name: a short name
  \<open>s\<close> is bound if and only if the registry has a model named prefix plus \<open>s\<close>, and it is
  bound to that model. (The registry is an object, so its property names are distinct.)
\<close>

theorem attachModels_binds:
  assumes "distinct (map fst (database_models w))"
  shows "models (attachModels capitalize self w) s
           = map_of (database_models w)
               (''Authentication$'' @ capitalize (name self) @ ''$'' @ s)"
proof -
  have p: "model_prefix capitalize (name self) @ s
             = ''Authentication$'' @ capitalize (name self) @ ''$'' @ s"
    by (simp add: model_prefix_def)
  have "models (attachModels capitalize self w) s
          = (case map_of (database_models w) (model_prefix capitalize (name self) @ s) of
               Some v \<Rightarrow> Some v | None \<Rightarrow> None)"
    unfolding attachModels_def Let_def
    using fold_attach [OF assms, of "model_prefix capitalize (name self)" Map.empty s]
    by simp
  then show ?thesis
    unfolding p by (simp split: option.splits)
qed

theorem attachModels_binds_witness:
  "distinct (map fst (database_models example_world))
   \<and> models (attachModels capitalize_ascii example_authenticator example_world) ''Token''
       = Some 12
   \<and> models (attachModels capitalize_ascii example_authenticator example_world) ''Identity''
       = None
   \<and> models (attachModels capitalize_ascii example_authenticator example_world)
       ''Authentication$Local$Token'' = None"
proof -
  have d: "distinct (map fst (database_models example_world))"
    by (simp add: example_world_def)
  have c: "capitalize_ascii (name example_authenticator) = ''Local''"
    by (simp add: capitalize_ascii_def example_authenticator_def)
  show ?thesis
    using d c attachModels_binds [OF d, of capitalize_ascii example_authenticator "''Token''"]
      attachModels_binds [OF d, of capitalize_ascii example_authenticator "''Identity''"]
      attachModels_binds [OF d, of capitalize_ascii example_authenticator
        "''Authentication$Local$Token''"]
    by (simp add: example_world_def)
qed

text \<open>The constructor returns the authenticator with the models \<^verbatim>\<open>attachModels\<close> bound.\<close>

lemma attachModels_fields:
  "name (attachModels capitalize self w) = name self"
  "config (attachModels capitalize self w) = config self"
  "deps (attachModels capitalize self w) = deps self"
  "router (attachModels capitalize self w) = router self"
  by (simp_all add: attachModels_def Let_def)

lemma define_routes_fields:
  "define_routes cls self = Inr self'
   \<Longrightarrow> name self' = name self \<and> config self' = config self \<and> models self' = models self"
  by (cases cls) auto

lemma constructor_models:
  assumes "constructor capitalize cls nm cfg d w = (Inr self, w')"
  shows "name self = nm
       \<and> database_models w' = database_models w
       \<and> models self
           = models (attachModels capitalize
               \<lparr>name = nm, config = next_addr w, deps = d, models = Map.empty, router = []\<rparr>
               w')"
proof -
  let ?w1 = "w\<lparr>heap := (heap w)(next_addr w := heap w cfg), next_addr := Suc (next_addr w)\<rparr>"
  let ?self1 = "attachModels capitalize
      \<lparr>name = nm, config = next_addr w, deps = d, models = Map.empty, router = []\<rparr> ?w1"
  from assms obtain self2 where d: "define_routes cls ?self1 = Inr self2"
    and s: "self = extend self2" and w': "w' = ?w1"
    by (auto simp: constructor_def clone_def Let_def split: sum.splits)
  from define_routes_fields [OF d] s w' show ?thesis
    by (simp add: extend_def attachModels_fields)
qed

section \<open>Properties of receiver\<close>


lemma throwing_Inr: "throwing r = (Inr a, s) \<Longrightarrow> r = (Inr a, s)"
  by (cases r) (auto simp: throwing_def split: sum.splits)

lemma throwing_simps [simp]:
  "throwing (Inl e', s) = (Inl (ErrorObject e'), s)"
  "throwing (Inr a, s) = (Inr a, s)"
  by (simp_all add: throwing_def)










text \<open>The same through the other throwing steps: the base \<^verbatim>\<open>authenticate\<close> (500), a
  request without the session interface, a thrown string, a thrown heap object.\<close>

lemma failure_redirect_examples:
  "redirects (snd (receiver example_codes (authenticate example_authenticator)
      example_authenticator \<lparr>req_id = 3, has_character = True\<rparr> 4 example_world))
     = [(4, 303, JStr ''/login?reason=Internal%20Server%20Error'')]"
  "redirects (snd (receiver example_codes
      (authenticate_as \<lparr>acc_id = 7, deferred = JUndefined\<rparr>)
      example_authenticator \<lparr>req_id = 3, has_character = False\<rparr> 4 example_world))
     = [(4, 303, JStr ''/login?reason=Internal%20Server%20Error'')]"
  "redirects (snd (receiver example_codes (authenticate_throws (Thrown (JStr ''no'')))
      example_authenticator \<lparr>req_id = 3, has_character = True\<rparr> 4 example_world))
     = [(4, 303, JStr ''/login?reason=Internal%20Server%20Error'')]"
  "redirects (snd (receiver example_codes (authenticate_throws (Thrown (JRef 1)))
      example_authenticator \<lparr>req_id = 3, has_character = True\<rparr> 4 example_world))
     = [(4, 303, JStr ''/login?reason=Internal%20Server%20Error'')]"
  by (simp_all add: receiver_def pipeline_def pipe_then_def authenticate_def
      authenticate_as_def authenticate_throws_def identify_def identify_return_def
      findIdentity_def Core_Identity_findOne_def linked_def new_Date_def emit_def
      login_step_def is_deferred_def TypeError_def failure_url_def res_redirect_def js_or_def
      get_prop_def queryString_escape_def escape_char_def qs_unreserved_def hex_digit_def
      string_of_int_def string_of_nat.simps
      SEE_OTHER_def INTERNAL_SERVER_ERROR_def NOT_FOUND_def example_codes_def
      example_world_def example_heap_def example_config_def example_authenticator_def)

text \<open>
  C7. A run of the pipe that succeeds has run \<^verbatim>\<open>authenticate\<close>, then \<^verbatim>\<open>identify\<close> on what
  it returned and in the world it left, then has set the session of the request to the
  resulting user exactly when that user is not deferred, and last has sent one redirect
  with status 303: to \<^verbatim>\<open>deferredRedirect\<close> for a deferred user, to \<^verbatim>\<open>successRedirect\<close>
  otherwise. \<^verbatim>\<open>receiver\<close> returns in the world of that run.
\<close>

theorem receiver_success:
  assumes "pipeline auth self rq rs w = (Inr u, w')"
  shows "\<exists>actx w1 uc w2 r.
           auth \<lparr>account = None, req = Some rq, res = Some rs\<rparr> w = (Inr actx, w1)
         \<and> identify self actx w1 = (Inr uc, w2)
         \<and> uc_res uc = Some r
         \<and> receiver httpCodeMessage auth self rq rs w = (Inr (), w')
         \<and> w' = (if is_deferred (uc_user uc)
                  then w2\<lparr>redirects := redirects w2 @
                            [(r, 303, get_prop w2 (config self) ''deferredRedirect'')]\<rparr>
                  else w2\<lparr>sessions := sessions w2 @ [(req_id rq, uc_user uc)],
                          redirects := redirects w2 @
                            [(r, 303, get_prop w2 (config self) ''successRedirect'')]\<rparr>)"
proof -
  obtain ra wa where a: "auth \<lparr>account = None, req = Some rq, res = Some rs\<rparr> w = (ra, wa)"
    by (cases "auth \<lparr>account = None, req = Some rq, res = Some rs\<rparr> w")
  from assms a obtain actx where ra: "ra = Inr actx"
    by (cases ra) (simp_all add: pipeline_def pipe_then_def)
  obtain ri wi where i: "identify self actx wa = (ri, wi)"
    by (cases "identify self actx wa")
  from assms a ra i obtain uc where ri: "ri = Inr uc"
    by (cases ri) (simp_all add: pipeline_def pipe_then_def)
  obtain rl wl where l: "login_step rq uc wi = (rl, wl)"
    by (cases "login_step rq uc wi")
  from assms a ra i ri l obtain uc' where rl: "rl = Inr uc'"
    by (cases rl) (simp_all add: pipeline_def pipe_then_def)
  from l rl have uc': "uc' = uc"
    by (auto simp: login_step_def split: if_splits)
  from assms a ra i ri l rl uc' have "throwing (redirect_step self uc wl) = (Inr u, w')"
    by (simp add: pipeline_def pipe_then_def)
  then have rd: "redirect_step self uc wl = (Inr u, w')" by (rule throwing_Inr)
  then obtain r where r: "uc_res uc = Some r"
    by (cases "uc_res uc") (simp_all add: redirect_step_def)
  have rec: "receiver httpCodeMessage auth self rq rs w = (Inr (), w')"
    using assms by (simp add: receiver_def)
  have "w' = (if is_deferred (uc_user uc)
                  then wi\<lparr>redirects := redirects wi @
                            [(r, 303, get_prop wi (config self) ''deferredRedirect'')]\<rparr>
                  else wi\<lparr>sessions := sessions wi @ [(req_id rq, uc_user uc)],
                          redirects := redirects wi @
                            [(r, 303, get_prop wi (config self) ''successRedirect'')]\<rparr>)"
    using l rl rd r
    by (auto simp: login_step_def redirect_step_def res_redirect_def character_set_def
        get_prop_def SEE_OTHER_def split: if_splits)
  with a ra i ri r rec show ?thesis by blast
qed

theorem receiver_success_witness:
  "pipeline (authenticate_as \<lparr>acc_id = 7, deferred = JUndefined\<rparr>) example_authenticator
     \<lparr>req_id = 3, has_character = True\<rparr> 4 example_world
   = (Inr (),
      example_world
        \<lparr>db_calls := [FindOne 7 ''local''],
         emitted := [(''authentication:authenticate'',
                      AuthenticatePayload 1000
                        \<lparr>authenticator_account = \<lparr>acc_id = 7, deferred = JUndefined\<rparr>,
                         authenticator_name = ''local'', user_id = Some 1,
                         user_deferred = None\<rparr>)],
         sessions := [(3, \<lparr>authenticator_account = \<lparr>acc_id = 7, deferred = JUndefined\<rparr>,
                           authenticator_name = ''local'', user_id = Some 1,
                           user_deferred = None\<rparr>)],
         redirects := [(4, 303, JStr ''/home'')],
         dates_read := 1\<rparr>)
   \<and> redirects (snd (receiver example_codes
        (authenticate_as \<lparr>acc_id = 7, deferred = JUndefined\<rparr>)
        example_authenticator \<lparr>req_id = 3, has_character = True\<rparr> 4 example_world))
     = [(4, 303, JStr ''/home'')]
   \<and> map fst (sessions (snd (receiver example_codes
        (authenticate_as \<lparr>acc_id = 7, deferred = JUndefined\<rparr>)
        example_authenticator \<lparr>req_id = 3, has_character = True\<rparr> 4 example_world)))
     = [3]"
proof -
  let ?u = "\<lparr>authenticator_account = \<lparr>acc_id = 7, deferred = JUndefined\<rparr>,
            authenticator_name = ''local'', user_id = Some 1, user_deferred = None\<rparr>"
  let ?w' = "example_world
        \<lparr>db_calls := [FindOne 7 ''local''],
         emitted := [(''authentication:authenticate'', AuthenticatePayload 1000 ?u)],
         sessions := [(3, ?u)],
         redirects := [(4, 303, JStr ''/home'')],
         dates_read := 1\<rparr>"
  have h: "pipeline (authenticate_as \<lparr>acc_id = 7, deferred = JUndefined\<rparr>)
             example_authenticator \<lparr>req_id = 3, has_character = True\<rparr> 4 example_world
           = (Inr (), ?w')"
    by (simp add: pipeline_def pipe_then_def authenticate_as_def identify_def
        identify_return_def findIdentity_def Core_Identity_findOne_def linked_def
        new_Date_def emit_def login_step_def is_deferred_def character_set_def
        redirect_step_def res_redirect_def get_prop_def SEE_OTHER_def
        example_world_def example_heap_def example_config_def example_authenticator_def)
  from receiver_success [OF h, of example_codes]
  have "receiver example_codes (authenticate_as \<lparr>acc_id = 7, deferred = JUndefined\<rparr>)
          example_authenticator \<lparr>req_id = 3, has_character = True\<rparr> 4 example_world
        = (Inr (), ?w')"
    by blast
  with h show ?thesis by simp
qed

text \<open>A deferred account: redirect to \<^verbatim>\<open>deferredRedirect\<close>, no session set.\<close>

lemma deferred_redirect_example:
  "redirects (snd (receiver example_codes
      (authenticate_as \<lparr>acc_id = 8, deferred = JBool True\<rparr>)
      example_authenticator \<lparr>req_id = 3, has_character = True\<rparr> 4 example_world))
     = [(4, 303, JStr ''/sent'')]"
  "sessions (snd (receiver example_codes
      (authenticate_as \<lparr>acc_id = 8, deferred = JBool True\<rparr>)
      example_authenticator \<lparr>req_id = 3, has_character = True\<rparr> 4 example_world)) = []"
  by (simp_all add: receiver_def pipeline_def pipe_then_def authenticate_as_def identify_def
      identify_return_def new_Date_def emit_def login_step_def is_deferred_def
      redirect_step_def res_redirect_def get_prop_def SEE_OTHER_def
      example_world_def example_heap_def example_config_def example_authenticator_def)

end
